theory Spec2Isabelle
  imports Main "HOL-Library.Word" "HOL-Library.Sublist"
begin

section \<open>Data of \<^verbatim>\<open>get-diff.ts\<close>\<close>

text \<open>
  A JavaScript string is a sequence of 16-bit code units, a \<^verbatim>\<open>Buffer\<close> a sequence of
  bytes. \<open>lit\<close> writes an ASCII literal of the source as such a string; the line feed of
  the template literal at line 74 is the code unit 10.
\<close>

type_synonym jstring = "16 word list"

type_synonym buffer = "8 word list"

definition lit :: "string \<Rightarrow> jstring" where
  "lit s = map (\<lambda>c. of_nat (of_char c)) s"

text \<open>
  \<^verbatim>\<open>GetDiffOptions\<close> (lines 16-23): every field is optional, \<open>None\<close> is the unset field.
  The default values of the parameters (\<^verbatim>\<open>paths = []\<close>, \<^verbatim>\<open>options = {}\<close>) stand for an
  omitted argument, so an omitted \<^verbatim>\<open>options\<close> is the record with all three fields unset.
  \<^verbatim>\<open>maxBuffer\<close> is a byte count.
\<close>

record GetDiffOptions =
  gitDir :: "jstring option"
  raw :: "bool option"
  maxBuffer :: "int option"

text \<open>The object literal \<^verbatim>\<open>execOptions\<close> of lines 51-59; \<^verbatim>\<open>encoding\<close> is null or a name.\<close>

record exec_options =
  cwd :: "jstring option"
  encoding :: "jstring option"
  maxBuffer :: int

text \<open>What \<^verbatim>\<open>execFileSync\<close> returns: a string or a Buffer (line 63).\<close>

datatype stdout_value = Text jstring | Bytes buffer

text \<open>
  What the \<^verbatim>\<open>catch\<close> clause receives (\<^verbatim>\<open>err: any\<close>). The handler reads the truthiness of
  \<^verbatim>\<open>err\<close>, its properties \<^verbatim>\<open>stderr\<close> and \<^verbatim>\<open>message\<close>, and \<^verbatim>\<open>String(err)\<close>. An object carries
  these, and the fields under which the runtime reports how the child process ended
  (\<^verbatim>\<open>status\<close>, \<^verbatim>\<open>signal\<close>, \<^verbatim>\<open>code\<close>); a primitive value has neither property and is given by
  its truthiness and its string conversion. \<open>rendered\<close> is the value of \<^verbatim>\<open>String(err)\<close> for
  an object, taken to exist, as it does for every \<^verbatim>\<open>Error\<close>. The property \<^verbatim>\<open>stderr\<close> is
  absent, a string (the runtime has decoded it) or a Buffer.
\<close>

datatype stderr_value = Absent | Str jstring | Buf buffer

record failure =
  message :: "jstring option"
  stderr :: stderr_value
  rendered :: jstring
  status :: "int option"
  signal :: "jstring option"
  code :: "jstring option"

datatype thrown = Primitive bool jstring | Object failure

text \<open>The error built at lines 75-77: \<^verbatim>\<open>new Error(msg)\<close> with the property \<^verbatim>\<open>original\<close>.\<close>

record Error =
  message :: jstring
  original :: thrown

text \<open>
  The runtime the module runs on is a parameter: \<^verbatim>\<open>execFileSync\<close> of \<^verbatim>\<open>child_process\<close>, which
  acts on the world \<open>'w\<close> (the file system, the repository) and either throws or returns
  the captured standard output, and \<^verbatim>\<open>toString('utf8')\<close> of a Buffer, where \<open>None\<close> is a
  call that throws.
\<close>

record 'w runtime =
  execFileSync :: "jstring \<Rightarrow> jstring list \<Rightarrow> exec_options \<Rightarrow> 'w \<Rightarrow> (thrown + stdout_value) \<times> 'w"
  toString_utf8 :: "buffer \<Rightarrow> jstring option"

section \<open>The function \<^verbatim>\<open>getDiff\<close>\<close>

text \<open>
  Lines 39-49, the local \<^verbatim>\<open>args\<close>. \<^verbatim>\<open>revRange && revRange.length > 0\<close>: an undefined
  \<^verbatim>\<open>revRange\<close> and the empty string are falsy.
\<close>

definition args :: "jstring option \<Rightarrow> jstring list \<Rightarrow> jstring list" where
  "args revRange paths =
     (let a0 = [lit ''--no-pager'', lit ''diff''];
          a1 = (case revRange of
                  None \<Rightarrow> a0
                | Some r \<Rightarrow> if r \<noteq> [] \<and> length r > 0 then a0 @ [r] else a0)
      in if length paths > 0 then a1 @ (lit ''--'' # paths) else a1)"

text \<open>Lines 51-59, the local \<^verbatim>\<open>execOptions\<close>; \<^verbatim>\<open>??\<close> replaces an unset \<^verbatim>\<open>maxBuffer\<close> only.\<close>

definition execOptions :: "GetDiffOptions \<Rightarrow> exec_options" where
  "execOptions options =
     \<lparr> cwd = gitDir options,
       encoding = (if raw options = Some True then None else Some (lit ''utf8'')),
       maxBuffer = (case GetDiffOptions.maxBuffer options of
                      None \<Rightarrow> 200 * 1024 * 1024
                    | Some m \<Rightarrow> m) \<rparr>"

text \<open>Lines 66-73, the local \<^verbatim>\<open>stderrMsg\<close>. A Buffer is truthy also when it is empty.\<close>

fun err_stderr :: "thrown \<Rightarrow> stderr_value" where
  "err_stderr (Primitive t s) = Absent"
| "err_stderr (Object f) = stderr f"

fun err_message :: "thrown \<Rightarrow> jstring option" where
  "err_message (Primitive t s) = None"
| "err_message (Object f) = failure.message f"

fun truthy :: "thrown \<Rightarrow> bool" where
  "truthy (Primitive t s) = t"
| "truthy (Object f) = True"

fun String :: "thrown \<Rightarrow> jstring" where
  "String (Primitive t s) = s"
| "String (Object f) = rendered f"

fun truthy_stderr :: "stderr_value \<Rightarrow> bool" where
  "truthy_stderr Absent = False"
| "truthy_stderr (Str s) = (s \<noteq> [])"
| "truthy_stderr (Buf b) = True"

definition stderrMsg :: "'w runtime \<Rightarrow> thrown \<Rightarrow> jstring" where
  "stderrMsg rt err =
     (if truthy err \<and> truthy_stderr (err_stderr err) then
        (case err_stderr err of
           Str s \<Rightarrow> s
         | Buf b \<Rightarrow> (case toString_utf8 rt b of
                       Some s \<Rightarrow> s
                     | None \<Rightarrow> lit ''<failed to decode stderr>'')
         | Absent \<Rightarrow> [])
      else [])"

text \<open>Line 74, the local \<^verbatim>\<open>msg\<close>.\<close>

definition msg :: "'w runtime \<Rightarrow> thrown \<Rightarrow> jstring" where
  "msg rt err =
     lit ''git diff failed: ''
     @ (case (if truthy err then err_message err else None) of
          Some m \<Rightarrow> if m \<noteq> [] then m else String err
        | None \<Rightarrow> String err)
     @ (if stderrMsg rt err \<noteq> [] then 10 # lit ''stderr:'' @ 10 # stderrMsg rt err else [])"

text \<open>Lines 75-77, the local \<^verbatim>\<open>ex\<close>.\<close>

definition ex :: "'w runtime \<Rightarrow> thrown \<Rightarrow> Error" where
  "ex rt err = \<lparr> message = msg rt err, original = err \<rparr>"

text \<open>Lines 34-80. \<open>Inl\<close> is the \<^verbatim>\<open>throw\<close> of line 78, \<open>Inr\<close> the \<^verbatim>\<open>return\<close> of line 63.\<close>

definition getDiff ::
  "'w runtime \<Rightarrow> jstring option \<Rightarrow> jstring list \<Rightarrow> GetDiffOptions \<Rightarrow> 'w \<Rightarrow> (Error + stdout_value) \<times> 'w" where
  "getDiff rt revRange paths options w =
     (case execFileSync rt (lit ''git'') (args revRange paths) (execOptions options) w of
        (Inr result, w') \<Rightarrow> (Inr result, w')
      | (Inl err, w') \<Rightarrow> (Inl (ex rt err), w'))"

section \<open>Observing the call\<close>

text \<open>
  \<open>recording rt\<close> is the runtime \<open>rt\<close> with a log beside the world: every call of
  \<^verbatim>\<open>execFileSync\<close> appends the file, the argument vector and the options it was given.
\<close>

type_synonym call = "jstring \<times> jstring list \<times> exec_options"

definition recording :: "'w runtime \<Rightarrow> ('w \<times> call list) runtime" where
  "recording rt =
     \<lparr> execFileSync = (\<lambda>file argv opts (w, calls).
          case execFileSync rt file argv opts w of
            (r, w') \<Rightarrow> (r, (w', calls @ [(file, argv, opts)]))),
       toString_utf8 = toString_utf8 rt \<rparr>"

section \<open>A decoder and runtimes to run the function on\<close>

text \<open>
  \<^verbatim>\<open>toString('utf8')\<close> of a Buffer, as Node.js documents it: the bytes are read as UTF-8
  and every ill-formed sequence becomes the replacement character U+FFFD; nothing is
  thrown for ill-formed input. \<open>utf8_scan\<close> reads the code points, \<open>None\<close> standing for
  an ill-formed sequence; its first four arguments are the number of continuation bytes
  still expected, the code point read so far and the range allowed for the next byte.
\<close>

datatype lead = Single nat | Multi nat nat nat nat | Bad

definition lead_byte :: "nat \<Rightarrow> lead" where
  "lead_byte b =
     (if b \<le> 0x7F then Single b
      else if 0xC2 \<le> b \<and> b \<le> 0xDF then Multi 1 (b - 0xC0) 0x80 0xBF
      else if b = 0xE0 then Multi 2 0 0xA0 0xBF
      else if b = 0xED then Multi 2 0xD 0x80 0x9F
      else if 0xE1 \<le> b \<and> b \<le> 0xEF then Multi 2 (b - 0xE0) 0x80 0xBF
      else if b = 0xF0 then Multi 3 0 0x90 0xBF
      else if 0xF1 \<le> b \<and> b \<le> 0xF3 then Multi 3 (b - 0xF0) 0x80 0xBF
      else if b = 0xF4 then Multi 3 4 0x80 0x8F
      else Bad)"

fun utf8_scan :: "nat \<Rightarrow> nat \<Rightarrow> nat \<Rightarrow> nat \<Rightarrow> nat list \<Rightarrow> nat option list" where
  "utf8_scan needed cp lo hi [] = (if needed = 0 then [] else [None])"
| "utf8_scan needed cp lo hi (b # bs) =
     (if needed \<noteq> 0 \<and> lo \<le> b \<and> b \<le> hi then
        (if needed = 1 then Some (cp * 64 + (b - 0x80)) # utf8_scan 0 0 0x80 0xBF bs
         else utf8_scan (needed - 1) (cp * 64 + (b - 0x80)) 0x80 0xBF bs)
      else (if needed \<noteq> 0 then [None] else []) @
        (case lead_byte b of
           Single c \<Rightarrow> Some c # utf8_scan 0 0 0x80 0xBF bs
         | Multi n c l h \<Rightarrow> utf8_scan n c l h bs
         | Bad \<Rightarrow> None # utf8_scan 0 0 0x80 0xBF bs))"

definition code_points :: "buffer \<Rightarrow> nat option list" where
  "code_points b = utf8_scan 0 0 0x80 0xBF (map unat b)"

definition utf8_valid :: "buffer \<Rightarrow> bool" where
  "utf8_valid b = (None \<notin> set (code_points b))"

definition utf16 :: "nat \<Rightarrow> jstring" where
  "utf16 c =
     (if c < 0x10000 then [of_nat c]
      else [of_nat (0xD800 + (c - 0x10000) div 0x400), of_nat (0xDC00 + (c - 0x10000) mod 0x400)])"

definition replacing_utf8 :: "buffer \<Rightarrow> jstring" where
  "replacing_utf8 b =
     concat (map (\<lambda>x. case x of Some c \<Rightarrow> utf16 c | None \<Rightarrow> [0xFFFD]) (code_points b))"

text \<open>
  \<open>always r\<close> is a runtime whose \<^verbatim>\<open>execFileSync\<close> ends in \<open>r\<close> whatever it is given;
  \<open>refusing r\<close> is the same with a decoder that throws for bytes that are not valid UTF-8,
  to reach the \<^verbatim>\<open>catch\<close> clause of line 70. \<open>capturing\<close> is a runtime whose child process
  writes the bytes the world holds and exits with status 0: the output comes back as a
  Buffer when \<^verbatim>\<open>encoding\<close> is null and decoded otherwise. The world of \<open>capturing\<close> is the
  repository content and a counter of the processes started so far.
\<close>

definition always :: "thrown + stdout_value \<Rightarrow> unit runtime" where
  "always r =
     \<lparr> execFileSync = (\<lambda>file argv opts w. (r, w)),
       toString_utf8 = (\<lambda>b. Some (replacing_utf8 b)) \<rparr>"

definition refusing :: "thrown + stdout_value \<Rightarrow> unit runtime" where
  "refusing r =
     \<lparr> execFileSync = (\<lambda>file argv opts w. (r, w)),
       toString_utf8 = (\<lambda>b. if utf8_valid b then Some (replacing_utf8 b) else None) \<rparr>"

definition capturing :: "(buffer \<times> nat) runtime" where
  "capturing =
     \<lparr> execFileSync = (\<lambda>file argv opts (content, started).
          (Inr (case encoding opts of
                  None \<Rightarrow> Bytes content
                | Some e \<Rightarrow> Text (replacing_utf8 content)),
           (content, Suc started))),
       toString_utf8 = (\<lambda>b. Some (replacing_utf8 b)) \<rparr>"

text \<open>
  How \<^verbatim>\<open>execFileSync\<close> of Node.js reports the end of the child process, read off the thrown
  error: an output larger than \<^verbatim>\<open>maxBuffer\<close> is the error with code \<^verbatim>\<open>ENOBUFS\<close>, an exit with
  a status other than 0 is an error with that \<^verbatim>\<open>status\<close> and no \<^verbatim>\<open>code\<close>. The returned value
  is a string when an \<^verbatim>\<open>encoding\<close> other than \<^verbatim>\<open>buffer\<close> was asked for, and a Buffer otherwise.
  These predicates describe what the runtime hands over; \<^verbatim>\<open>getDiff\<close> reads none of them.
\<close>

fun output_too_large :: "thrown \<Rightarrow> bool" where
  "output_too_large (Object f) = (code f = Some (lit ''ENOBUFS''))"
| "output_too_large (Primitive t s) = False"

fun nonzero_exit :: "thrown \<Rightarrow> bool" where
  "nonzero_exit (Object f) =
     (code f = None \<and> (case status f of Some n \<Rightarrow> n \<noteq> 0 | None \<Rightarrow> False))"
| "nonzero_exit (Primitive t s) = False"


text \<open>
  Errors to run the handler on: \<^verbatim>\<open>git\<close> ended with status 128 and the given standard error,
  the executable was not found.
\<close>

definition command_failed :: "stderr_value \<Rightarrow> jstring \<Rightarrow> thrown" where
  "command_failed v text =
     Object \<lparr> failure.message = Some (lit ''Command failed: git --no-pager diff'' @ 10 # text),
              stderr = v,
              rendered = lit ''Error: Command failed: git --no-pager diff'' @ 10 # text,
              status = Some 128, signal = None, code = None \<rparr>"

definition not_found :: thrown where
  "not_found =
     Object \<lparr> failure.message = Some (lit ''spawnSync git ENOENT''),
              stderr = Absent,
              rendered = lit ''Error: spawnSync git ENOENT'',
              status = None, signal = None, code = Some (lit ''ENOENT'') \<rparr>"

definition unset :: GetDiffOptions where
  "unset = \<lparr> gitDir = None, raw = None, GetDiffOptions.maxBuffer = None \<rparr>"

text \<open>
  \<^verbatim>\<open>execFileSync\<close> as Node.js has it, over what the child process did. \<open>Threw e\<close>: no process
  ran, the runtime refused the arguments or the options or could not start the file, and
  threw \<open>e\<close>. \<open>Ran out err st sg\<close>: a process ran; \<open>out\<close> and \<open>err\<close> are the bytes the runtime
  read from its standard output and standard error, \<open>st\<close> and \<open>sg\<close> the exit status and the
  signal it ended with. The runtime counts the bytes it reads from both pipes, and when a
  \<^verbatim>\<open>maxBuffer\<close> greater than 0 is exceeded it ends the process and throws the error of the
  system call \<^verbatim>\<open>spawnSync git\<close> with code \<^verbatim>\<open>ENOBUFS\<close>; a \<^verbatim>\<open>maxBuffer\<close> of 0 is no limit. Otherwise an
  end other than status 0 throws \<^verbatim>\<open>Command failed\<close>, with the command line and the standard
  error in the message, and status 0 returns the standard output. What was read is handed
  over as a Buffer when no \<^verbatim>\<open>encoding\<close> (or \<^verbatim>\<open>buffer\<close>) was asked for and decoded otherwise.
\<close>

datatype ending = Threw thrown | Ran buffer buffer "int option" "jstring option"

definition captured_stderr :: "exec_options \<Rightarrow> buffer \<Rightarrow> stderr_value" where
  "captured_stderr opts b =
     (if encoding opts = None \<or> encoding opts = Some (lit ''buffer'') then Buf b
      else Str (replacing_utf8 b))"

definition captured_stdout :: "exec_options \<Rightarrow> buffer \<Rightarrow> stdout_value" where
  "captured_stdout opts b =
     (if encoding opts = None \<or> encoding opts = Some (lit ''buffer'') then Bytes b
      else Text (replacing_utf8 b))"

fun join :: "jstring list \<Rightarrow> jstring" where
  "join [] = []"
| "join [x] = x"
| "join (x # y # ys) = x @ 32 # join (y # ys)"

definition spawn_enobufs ::
  "jstring \<Rightarrow> exec_options \<Rightarrow> buffer \<Rightarrow> int option \<Rightarrow> jstring option \<Rightarrow> thrown" where
  "spawn_enobufs file opts err st sg =
     Object \<lparr> failure.message = Some (lit ''spawnSync '' @ file @ lit '' ENOBUFS''),
              stderr = captured_stderr opts err,
              rendered = lit ''Error: spawnSync '' @ file @ lit '' ENOBUFS'',
              status = st, signal = sg, code = Some (lit ''ENOBUFS'') \<rparr>"

definition exit_failure ::
  "jstring \<Rightarrow> jstring list \<Rightarrow> exec_options \<Rightarrow> buffer \<Rightarrow> int option \<Rightarrow> jstring option \<Rightarrow> thrown" where
  "exit_failure file argv opts err st sg =
     (let text = lit ''Command failed: '' @ join (file # argv)
                 @ (if err = [] then [] else 10 # replacing_utf8 err)
      in Object \<lparr> failure.message = Some text,
                  stderr = captured_stderr opts err,
                  rendered = lit ''Error: '' @ text,
                  status = st, signal = sg, code = None \<rparr>)"

definition node ::
  "(jstring \<Rightarrow> jstring list \<Rightarrow> exec_options \<Rightarrow> 'w \<Rightarrow> ending \<times> 'w) \<Rightarrow> 'w runtime" where
  "node child =
     \<lparr> execFileSync = (\<lambda>file argv opts w.
          case child file argv opts w of
            (Threw e, w') \<Rightarrow> (Inl e, w')
          | (Ran out err st sg, w') \<Rightarrow>
              if 0 < exec_options.maxBuffer opts
                 \<and> exec_options.maxBuffer opts < int (length out + length err)
              then (Inl (spawn_enobufs file opts err st sg), w')
              else if st \<noteq> Some 0 then (Inl (exit_failure file argv opts err st sg), w')
              else (Inr (captured_stdout opts out), w')),
       toString_utf8 = (\<lambda>b. Some (replacing_utf8 b)) \<rparr>"

text \<open>A child process that ends the same way whatever it is started with.\<close>

definition ending_in ::
  "ending \<Rightarrow> jstring \<Rightarrow> jstring list \<Rightarrow> exec_options \<Rightarrow> unit \<Rightarrow> ending \<times> unit" where
  "ending_in e file argv opts w = (e, w)"

section \<open>Properties\<close>

lemma toString_utf8_recording: "toString_utf8 (recording rt) = toString_utf8 rt"
  by (simp add: recording_def)

lemma stderrMsg_recording: "stderrMsg (recording rt) err = stderrMsg rt err"
  unfolding stderrMsg_def toString_utf8_recording by (rule refl)

lemma ex_recording: "ex (recording rt) err = ex rt err"
  unfolding ex_def msg_def stderrMsg_recording by (rule refl)

lemma execFileSync_recording:
  "execFileSync (recording rt) file argv opts (w, calls) =
     (fst (execFileSync rt file argv opts w),
      (snd (execFileSync rt file argv opts w), calls @ [(file, argv, opts)]))"
  by (simp add: recording_def split: prod.splits)

text \<open>The log does not change what the function does.\<close>

lemma getDiff_recording:
  "fst (getDiff (recording rt) revRange paths options (w, calls)) =
     fst (getDiff rt revRange paths options w)"
  by (simp add: getDiff_def execFileSync_recording ex_recording split: prod.splits sum.splits)

lemma getDiff_calls:
  "snd (snd (getDiff (recording rt) revRange paths options (w, calls))) =
     calls @ [(lit ''git'', args revRange paths, execOptions options)]"
  by (simp add: getDiff_def execFileSync_recording split: prod.splits sum.splits)

text \<open>The two ways out of the \<^verbatim>\<open>try\<close> statement.\<close>

lemma getDiff_throws:
  "execFileSync rt (lit ''git'') (args revRange paths) (execOptions options) w = (Inl err, w')
   \<Longrightarrow> getDiff rt revRange paths options w = (Inl (ex rt err), w')"
  by (simp add: getDiff_def)


lemma original_ex: "original (ex rt err) = err"
  by (simp add: ex_def)


lemma execFileSync_always: "execFileSync (always r) file argv opts w = (r, w)"
  by (simp add: always_def)

lemma toString_utf8_always: "toString_utf8 (always r) b = Some (replacing_utf8 b)"
  by (simp add: always_def)

subsection \<open>The argument vector\<close>

text \<open>
  C1. Every call of \<^verbatim>\<open>getDiff\<close> starts exactly one child process, \<^verbatim>\<open>git\<close>, and its argument
  vector is \<^verbatim>\<open>--no-pager\<close>, \<^verbatim>\<open>diff\<close>, then \<^verbatim>\<open>revRange\<close> as one unchanged argument exactly
  when it is given and not the empty string, then \<^verbatim>\<open>--\<close> and the elements of \<^verbatim>\<open>paths\<close>,
  each unchanged and in their order, exactly when \<^verbatim>\<open>paths\<close> is not empty.
\<close>

theorem getDiff_argument_vector:
  "snd (snd (getDiff (recording rt) revRange paths options (w, calls))) =
     calls @ [(lit ''git'',
               [lit ''--no-pager'', lit ''diff'']
               @ (case revRange of None \<Rightarrow> [] | Some r \<Rightarrow> if r = [] then [] else [r])
               @ (if paths = [] then [] else lit ''--'' # paths),
               execOptions options)]"
  by (simp add: getDiff_calls args_def split: option.splits)

text \<open>
  C9. Two calls with the same \<^verbatim>\<open>revRange\<close> and \<^verbatim>\<open>paths\<close> and any two \<^verbatim>\<open>options\<close> start the
  same file with the same argument vector: \<^verbatim>\<open>options\<close> reaches the child process through
  the third argument of \<^verbatim>\<open>execFileSync\<close> only.
\<close>

theorem getDiff_arguments_ignore_options:
  "map (\<lambda>(file, argv, opts). (file, argv))
       (snd (snd (getDiff (recording rt) revRange paths options1 (w, calls)))) =
   map (\<lambda>(file, argv, opts). (file, argv))
       (snd (snd (getDiff (recording rt) revRange paths options2 (w, calls))))"
  by (simp add: getDiff_calls)

text \<open>
  C10. Whenever \<^verbatim>\<open>paths\<close> is not empty, whatever its elements are, the argument vector is
  the one of the call without paths, then \<^verbatim>\<open>--\<close>, then every element of \<^verbatim>\<open>paths\<close> as an
  argument of its own; for \<^verbatim>\<open>paths = [""]\<close> it ends in \<^verbatim>\<open>--\<close> and one empty argument.
\<close>

theorem getDiff_separator_for_nonempty_paths:
  assumes "paths \<noteq> []"
  shows "map (\<lambda>(file, argv, opts). argv)
           (snd (snd (getDiff (recording rt) revRange paths options (w, calls)))) =
         map (\<lambda>(file, argv, opts). argv) calls @ [args revRange [] @ lit ''--'' # paths]"
  using assms by (simp add: getDiff_calls args_def Let_def split: option.splits)

theorem getDiff_separator_for_nonempty_paths_witness:
  "[[]] \<noteq> ([] :: jstring list)
   \<and> map (\<lambda>(file, argv, opts). argv)
        (snd (snd (getDiff (recording (always (Inr (Text [])))) None [[]] unset ((), [])))) =
      [[lit ''--no-pager'', lit ''diff'', lit ''--'', []]]"
proof -
  have h: "[[]] \<noteq> ([] :: jstring list)" by simp
  show ?thesis
    using getDiff_separator_for_nonempty_paths
      [OF h, of "always (Inr (Text []))" None unset "()" "[]"]
    by (simp add: args_def)
qed

subsection \<open>Success and failure\<close>



text \<open>
  C6. Whatever \<^verbatim>\<open>execFileSync\<close> throws (the error of a launch failure, of an exit with a
  status other than 0, of a termination by a signal, of an output larger than the
  buffer), \<^verbatim>\<open>getDiff\<close> throws one error: its message is the composed one and its property
  \<^verbatim>\<open>original\<close> is the value that was thrown, with the \<^verbatim>\<open>status\<close>, \<^verbatim>\<open>signal\<close> and \<^verbatim>\<open>code\<close> it
  carries.
\<close>

theorem getDiff_wraps_every_failure:
  assumes "execFileSync rt (lit ''git'') (args revRange paths) (execOptions options) w = (Inl err, w')"
  shows "getDiff rt revRange paths options w =
           (Inl \<lparr> message = msg rt err, original = err \<rparr>, w')"
  using getDiff_throws [OF assms] by (simp add: ex_def)

theorem getDiff_wraps_every_failure_witness:
  "execFileSync (always (Inl not_found)) (lit ''git'') (args None []) (execOptions unset) ()
     = (Inl not_found, ())
   \<and> getDiff (always (Inl not_found)) None [] unset () =
       (Inl \<lparr> message = lit ''git diff failed: spawnSync git ENOENT'', original = not_found \<rparr>, ())"
proof -
  have h: "execFileSync (always (Inl not_found)) (lit ''git'') (args None []) (execOptions unset) ()
             = (Inl not_found, ())"
    by (simp add: execFileSync_always)
  have m: "msg (always (Inl not_found)) not_found = lit ''git diff failed: spawnSync git ENOENT''"
    by (simp add: msg_def stderrMsg_def not_found_def lit_def)
  show ?thesis using h getDiff_wraps_every_failure [OF h] by (simp add: m)
qed

text \<open>
  C8. Let the outcome of \<^verbatim>\<open>execFileSync\<close> be a function of its arguments (the file, the
  argument vector, the options with the working directory) and of the repository state
  \<open>repo w\<close> of the world. Then two calls of \<^verbatim>\<open>getDiff\<close> with the same arguments, in worlds
  with the same repository state, have the same outcome: the same returned text or
  bytes, or the same thrown error.
\<close>

theorem getDiff_deterministic:
  assumes "\<forall>file argv opts w1 w2. repo w1 = repo w2 \<longrightarrow>
             fst (execFileSync rt file argv opts w1) = fst (execFileSync rt file argv opts w2)"
    and "repo w1 = repo w2"
  shows "fst (getDiff rt revRange paths options w1) = fst (getDiff rt revRange paths options w2)"
proof -
  let ?run = "execFileSync rt (lit ''git'') (args revRange paths) (execOptions options)"
  have "fst (?run w1) = fst (?run w2)" using assms by blast
  then show ?thesis
    by (cases "?run w1"; cases "?run w2") (auto simp: getDiff_def split: sum.splits)
qed

theorem getDiff_deterministic_witness:
  "fst (([0x40, 0x40], 0) :: buffer \<times> nat) = fst (([0x40, 0x40], 7) :: buffer \<times> nat)
   \<and> fst (getDiff capturing None [] unset ([0x40, 0x40], 0)) =
      fst (getDiff capturing None [] unset ([0x40, 0x40], 7))"
proof -
  have d: "\<forall>file argv opts w1 w2. fst w1 = fst w2 \<longrightarrow>
             fst (execFileSync capturing file argv opts w1) =
             fst (execFileSync capturing file argv opts w2)"
    by (auto simp: capturing_def split: prod.splits option.splits)
  have h: "fst (([0x40, 0x40], 0) :: buffer \<times> nat) = fst (([0x40, 0x40], 7) :: buffer \<times> nat)"
    by simp
  show ?thesis using h getDiff_deterministic [where repo = fst, OF d h] by simp
qed

subsection \<open>The returned value and the buffer\<close>



lemma stderrMsg_spawn_enobufs:
  "stderrMsg (node child) (spawn_enobufs file opts err st sg) = replacing_utf8 err"
  by (simp add: stderrMsg_def spawn_enobufs_def captured_stderr_def node_def)

lemma msg_spawn_enobufs:
  "msg (node child) (spawn_enobufs (lit ''git'') opts err st sg) =
     lit ''git diff failed: spawnSync git ENOBUFS''
     @ (if replacing_utf8 err = [] then [] else 10 # lit ''stderr:'' @ 10 # replacing_utf8 err)"
  unfolding msg_def stderrMsg_spawn_enobufs by (simp add: spawn_enobufs_def lit_def)

text \<open>
  C3, as the code has it. The buffer size \<^verbatim>\<open>getDiff\<close> configures is \<^verbatim>\<open>options.maxBuffer\<close>, and
  200 * 1024 * 1024 when that is unset. When it is greater than 0 and the standard output
  captured from the child process is larger, the call on Node.js fails: it returns no
  output, truncated or not, and throws the composed error whose message starts with
  \<^verbatim>\<open>git diff failed: spawnSync git ENOBUFS\<close> and whose \<^verbatim>\<open>original\<close> is the error of code
  \<^verbatim>\<open>ENOBUFS\<close>, which is not the error of an exit with a status other than 0.
\<close>

theorem getDiff_output_too_large:
  assumes "child (lit ''git'') (args revRange paths) (execOptions options) w = (Ran out err st sg, w')"
    and "cap = (case GetDiffOptions.maxBuffer options of None \<Rightarrow> 200 * 1024 * 1024 | Some m \<Rightarrow> m)"
    and "0 < cap"
    and "cap < int (length out)"
  shows "getDiff (node child) revRange paths options w =
           (Inl \<lparr> message = lit ''git diff failed: spawnSync git ENOBUFS''
                    @ (if replacing_utf8 err = [] then []
                       else 10 # lit ''stderr:'' @ 10 # replacing_utf8 err),
                  original = spawn_enobufs (lit ''git'') (execOptions options) err st sg \<rparr>, w')
       \<and> output_too_large (spawn_enobufs (lit ''git'') (execOptions options) err st sg)
       \<and> \<not> nonzero_exit (spawn_enobufs (lit ''git'') (execOptions options) err st sg)"
proof -
  have cap: "exec_options.maxBuffer (execOptions options) = cap"
    using assms(2) by (simp add: execOptions_def)
  have "execFileSync (node child) (lit ''git'') (args revRange paths) (execOptions options) w =
          (Inl (spawn_enobufs (lit ''git'') (execOptions options) err st sg), w')"
    using assms(1,3,4) by (simp add: node_def cap)
  from getDiff_throws [OF this] show ?thesis
    by (simp add: ex_def msg_spawn_enobufs) (simp add: spawn_enobufs_def)
qed

theorem getDiff_output_too_large_witness:
  "ending_in (Ran [0x61, 0x62] [] None (Some (lit ''SIGTERM''))) (lit ''git'') (args None [])
       (execOptions (unset\<lparr>GetDiffOptions.maxBuffer := Some 1\<rparr>)) ()
     = (Ran [0x61, 0x62] [] None (Some (lit ''SIGTERM'')), ())
   \<and> (0::int) < 1 \<and> (1::int) < int (length [0x61, 0x62 :: 8 word])
   \<and> getDiff (node (ending_in (Ran [0x61, 0x62] [] None (Some (lit ''SIGTERM''))))) None []
        (unset\<lparr>GetDiffOptions.maxBuffer := Some 1\<rparr>) () =
       (Inl \<lparr> message = lit ''git diff failed: spawnSync git ENOBUFS'',
              original = spawn_enobufs (lit ''git'')
                (execOptions (unset\<lparr>GetDiffOptions.maxBuffer := Some 1\<rparr>)) []
                None (Some (lit ''SIGTERM'')) \<rparr>, ())"
proof -
  let ?o = "unset\<lparr>GetDiffOptions.maxBuffer := Some 1\<rparr>"
  let ?e = "Ran [0x61, 0x62] [] None (Some (lit ''SIGTERM''))"
  have a: "ending_in ?e (lit ''git'') (args None []) (execOptions ?o) () = (?e, ())"
    by (simp add: ending_in_def)
  have b: "(1::int) = (case GetDiffOptions.maxBuffer ?o of None \<Rightarrow> 200 * 1024 * 1024 | Some m \<Rightarrow> m)"
    by (simp add: unset_def)
  have c: "(0::int) < 1"
    by simp
  have d: "(1::int) < int (length [0x61, 0x62 :: 8 word])"
    by simp
  have r: "replacing_utf8 [] = []"
    by (simp add: replacing_utf8_def code_points_def)
  show ?thesis
    using a c d
      getDiff_output_too_large
        [where child = "ending_in ?e" and revRange = None and paths = "[]" and options = ?o
           and w = "()", OF a b c d]
    by (simp add: r)
qed

text \<open>
  C3, as it is stated, fails for the cap 0. Line 58 keeps a configured \<^verbatim>\<open>maxBuffer\<close> of 0
  (\<^verbatim>\<open>??\<close> replaces an unset one only), and the runtime takes 0 as no limit: a child process
  that writes one byte and exits with status 0 has written more than the configured cap,
  and the call returns that byte.
\<close>

theorem getDiff_cap_zero_counterexample:
  "exec_options.maxBuffer (execOptions (unset\<lparr>GetDiffOptions.maxBuffer := Some 0\<rparr>)) = 0
   \<and> (0::int) < int (length [0x78 :: 8 word])
   \<and> getDiff (node (ending_in (Ran [0x78] [] (Some 0) None))) None []
        (unset\<lparr>GetDiffOptions.maxBuffer := Some 0\<rparr>) () = (Inr (Text (lit ''x'')), ())"
  by (simp add: getDiff_def node_def ending_in_def execOptions_def unset_def captured_stdout_def
      replacing_utf8_def code_points_def lead_byte_def utf16_def lit_def)

text \<open>
  For comparison, the failure of a child process that stays within the buffer and ends
  otherwise than with status 0: the message starts with \<^verbatim>\<open>git diff failed: Command failed\<close>
  and the \<^verbatim>\<open>original\<close> has no \<^verbatim>\<open>code\<close>.
\<close>

lemma getDiff_exit_failure_on_node:
  assumes "child (lit ''git'') (args revRange paths) (execOptions options) w = (Ran out err st sg, w')"
    and "\<not> (0 < exec_options.maxBuffer (execOptions options)
            \<and> exec_options.maxBuffer (execOptions options) < int (length out + length err))"
    and "st \<noteq> Some 0"
  shows "getDiff (node child) revRange paths options w =
           (Inl \<lparr> message = lit ''git diff failed: '' @ lit ''Command failed: ''
                    @ join (lit ''git'' # args revRange paths)
                    @ (if err = [] then [] else 10 # replacing_utf8 err)
                    @ (if replacing_utf8 err = [] then []
                       else 10 # lit ''stderr:'' @ 10 # replacing_utf8 err),
                  original = exit_failure (lit ''git'') (args revRange paths) (execOptions options)
                               err st sg \<rparr>, w')
       \<and> \<not> output_too_large
             (exit_failure (lit ''git'') (args revRange paths) (execOptions options) err st sg)"
proof -
  let ?e = "exit_failure (lit ''git'') (args revRange paths) (execOptions options) err st sg"
  have run: "execFileSync (node child) (lit ''git'') (args revRange paths) (execOptions options) w =
          (Inl ?e, w')"
    using assms by (auto simp: node_def)
  have s: "stderrMsg (node child) ?e = replacing_utf8 err"
    by (simp add: stderrMsg_def exit_failure_def captured_stderr_def node_def Let_def)
  have m: "msg (node child) ?e = lit ''git diff failed: '' @ lit ''Command failed: ''
                    @ join (lit ''git'' # args revRange paths)
                    @ (if err = [] then [] else 10 # replacing_utf8 err)
                    @ (if replacing_utf8 err = [] then []
                       else 10 # lit ''stderr:'' @ 10 # replacing_utf8 err)"
    unfolding msg_def s by (simp add: exit_failure_def Let_def lit_def)
  have c: "\<not> output_too_large ?e"
    by (simp add: exit_failure_def Let_def)
  from getDiff_throws [OF run] m c show ?thesis by (simp add: ex_def)
qed

subsection \<open>The message of the thrown error\<close>

text \<open>
  C4. When \<^verbatim>\<open>execFileSync\<close> throws an error object (as it does for an exit with a status
  other than 0) whose \<^verbatim>\<open>stderr\<close> is a non-empty text, or a Buffer that decodes to one, the
  message of the thrown error is \<^verbatim>\<open>git diff failed: \<close>, the description of the failure
  (its \<^verbatim>\<open>message\<close>, or \<^verbatim>\<open>String(err)\<close> when that is missing or empty), a line feed, the label
  \<^verbatim>\<open>stderr:\<close>, a line feed and that text.
\<close>

theorem getDiff_message_has_stderr:
  assumes "execFileSync rt (lit ''git'') (args revRange paths) (execOptions options) w =
             (Inl (Object f), w')"
    and "stderr f = Str s \<or> (stderr f = Buf b \<and> toString_utf8 rt b = Some s)"
    and "s \<noteq> []"
  shows "getDiff rt revRange paths options w =
           (Inl \<lparr> message = lit ''git diff failed: ''
                    @ (case failure.message f of
                         None \<Rightarrow> rendered f
                       | Some m \<Rightarrow> if m = [] then rendered f else m)
                    @ 10 # lit ''stderr:'' @ 10 # s,
                  original = Object f \<rparr>, w')"
proof -
  have "stderrMsg rt (Object f) = s"
    using assms(2,3) by (auto simp: stderrMsg_def)
  then have "msg rt (Object f) = lit ''git diff failed: ''
                    @ (case failure.message f of
                         None \<Rightarrow> rendered f
                       | Some m \<Rightarrow> if m = [] then rendered f else m)
                    @ 10 # lit ''stderr:'' @ 10 # s"
    using assms(3) by (simp add: msg_def split: option.splits)
  with getDiff_throws [OF assms(1)] show ?thesis by (simp add: ex_def)
qed

theorem getDiff_message_has_stderr_witness:
  "execFileSync (always (Inl (command_failed (Buf [0x62, 0x61, 0x64]) (lit ''bad''))))
       (lit ''git'') (args (Some (lit ''x..y'')) []) (execOptions (unset\<lparr>raw := Some True\<rparr>)) ()
     = (Inl (command_failed (Buf [0x62, 0x61, 0x64]) (lit ''bad'')), ())
   \<and> toString_utf8 (always (Inl (command_failed (Buf [0x62, 0x61, 0x64]) (lit ''bad''))))
       [0x62, 0x61, 0x64] = Some (lit ''bad'')
   \<and> lit ''bad'' \<noteq> []
   \<and> getDiff (always (Inl (command_failed (Buf [0x62, 0x61, 0x64]) (lit ''bad''))))
       (Some (lit ''x..y'')) [] (unset\<lparr>raw := Some True\<rparr>) () =
       (Inl \<lparr> message = lit ''git diff failed: Command failed: git --no-pager diff''
                  @ 10 # lit ''bad'' @ 10 # lit ''stderr:'' @ 10 # lit ''bad'',
              original = command_failed (Buf [0x62, 0x61, 0x64]) (lit ''bad'') \<rparr>, ())"
proof -
  let ?f = "\<lparr> failure.message = Some (lit ''Command failed: git --no-pager diff'' @ 10 # lit ''bad''),
              stderr = Buf [0x62, 0x61, 0x64],
              rendered = lit ''Error: Command failed: git --no-pager diff'' @ 10 # lit ''bad'',
              status = Some 128, signal = None, code = None \<rparr>"
  let ?rt = "always (Inl (command_failed (Buf [0x62, 0x61, 0x64]) (lit ''bad'')))"
  let ?raw = "unset\<lparr>raw := Some True\<rparr>"
  have e: "command_failed (Buf [0x62, 0x61, 0x64]) (lit ''bad'') = Object ?f"
    by (simp add: command_failed_def)
  have a: "execFileSync ?rt (lit ''git'') (args (Some (lit ''x..y'')) []) (execOptions ?raw) ()
             = (Inl (Object ?f), ())"
    by (simp add: execFileSync_always e)
  have d: "toString_utf8 ?rt [0x62, 0x61, 0x64] = Some (lit ''bad'')"
    by (simp add: toString_utf8_always replacing_utf8_def code_points_def lead_byte_def
        utf16_def lit_def)
  have b: "stderr ?f = Str (lit ''bad'') \<or>
           (stderr ?f = Buf [0x62, 0x61, 0x64] \<and> toString_utf8 ?rt [0x62, 0x61, 0x64] = Some (lit ''bad''))"
    using d by simp
  have c: "lit ''bad'' \<noteq> []"
    by (simp add: lit_def)
  show ?thesis
    using a d c getDiff_message_has_stderr [OF a b c] by (simp add: command_failed_def lit_def)
qed

text \<open>
  C5, as the code has it. When \<^verbatim>\<open>execFileSync\<close> throws an error object whose \<^verbatim>\<open>stderr\<close> is a
  Buffer and \<^verbatim>\<open>toString('utf8')\<close> of that Buffer throws, the message of the thrown error
  carries the placeholder \<^verbatim>\<open><failed to decode stderr>\<close> in the place of the text, and the
  one error that leaves \<^verbatim>\<open>getDiff\<close> is the composed one: the decoding error goes no
  further.
\<close>

theorem getDiff_placeholder_when_decoding_throws:
  assumes "execFileSync rt (lit ''git'') (args revRange paths) (execOptions options) w =
             (Inl (Object f), w')"
    and "stderr f = Buf b"
    and "toString_utf8 rt b = None"
  shows "getDiff rt revRange paths options w =
           (Inl \<lparr> message = lit ''git diff failed: ''
                    @ (case failure.message f of
                         None \<Rightarrow> rendered f
                       | Some m \<Rightarrow> if m = [] then rendered f else m)
                    @ 10 # lit ''stderr:'' @ 10 # lit ''<failed to decode stderr>'',
                  original = Object f \<rparr>, w')"
proof -
  have "stderrMsg rt (Object f) = lit ''<failed to decode stderr>''"
    using assms(2,3) by (simp add: stderrMsg_def)
  then have "msg rt (Object f) = lit ''git diff failed: ''
                    @ (case failure.message f of
                         None \<Rightarrow> rendered f
                       | Some m \<Rightarrow> if m = [] then rendered f else m)
                    @ 10 # lit ''stderr:'' @ 10 # lit ''<failed to decode stderr>''"
    by (simp add: msg_def lit_def split: option.splits)
  with getDiff_throws [OF assms(1)] show ?thesis by (simp add: ex_def)
qed

theorem getDiff_placeholder_when_decoding_throws_witness:
  "execFileSync (refusing (Inl (command_failed (Buf [0xFF]) []))) (lit ''git'') (args None [])
       (execOptions (unset\<lparr>raw := Some True\<rparr>)) ()
     = (Inl (command_failed (Buf [0xFF]) []), ())
   \<and> toString_utf8 (refusing (Inl (command_failed (Buf [0xFF]) []))) [0xFF] = None
   \<and> getDiff (refusing (Inl (command_failed (Buf [0xFF]) []))) None []
        (unset\<lparr>raw := Some True\<rparr>) () =
       (Inl \<lparr> message = lit ''git diff failed: '' @ lit ''Command failed: git --no-pager diff''
                  @ 10 # 10 # lit ''stderr:'' @ 10 # lit ''<failed to decode stderr>'',
              original = command_failed (Buf [0xFF]) [] \<rparr>, ())"
proof -
  let ?f = "\<lparr> failure.message = Some (lit ''Command failed: git --no-pager diff'' @ 10 # []),
              stderr = Buf [0xFF],
              rendered = lit ''Error: Command failed: git --no-pager diff'' @ 10 # [],
              status = Some 128, signal = None, code = None \<rparr>"
  let ?rt = "refusing (Inl (command_failed (Buf [0xFF]) []))"
  have a: "execFileSync ?rt (lit ''git'') (args None []) (execOptions (unset\<lparr>raw := Some True\<rparr>)) ()
             = (Inl (Object ?f), ())"
    by (simp add: refusing_def command_failed_def)
  have b: "stderr ?f = Buf [0xFF]"
    by simp
  have c: "toString_utf8 ?rt [0xFF] = None"
    by (simp add: refusing_def utf8_valid_def code_points_def lead_byte_def)
  show ?thesis
    using a c getDiff_placeholder_when_decoding_throws [OF a b c]
    by (simp add: command_failed_def lit_def)
qed

text \<open>
  C5, as it is stated, fails. \<^verbatim>\<open>toString('utf8')\<close> of a Buffer does not throw for bytes that
  are not valid UTF-8: it puts U+FFFD in their place. For the standard error \<^verbatim>\<open>FF\<close>, which
  is not valid UTF-8, the message carries that decoded text and no placeholder.
\<close>

theorem getDiff_invalid_utf8_counterexample:
  "\<not> utf8_valid [0xFF]
   \<and> getDiff (always (Inl (command_failed (Buf [0xFF]) [0xFFFD]))) None []
        (unset\<lparr>raw := Some True\<rparr>) () =
       (Inl \<lparr> message = lit ''git diff failed: Command failed: git --no-pager diff''
                  @ [10, 0xFFFD, 10] @ lit ''stderr:'' @ [10, 0xFFFD],
              original = command_failed (Buf [0xFF]) [0xFFFD] \<rparr>, ())
   \<and> \<not> sublist (lit ''<failed to decode stderr>'')
         (lit ''git diff failed: Command failed: git --no-pager diff''
          @ [10, 0xFFFD, 10] @ lit ''stderr:'' @ [10, 0xFFFD])"
proof -
  have a: "\<not> utf8_valid [0xFF]"
    by (simp add: utf8_valid_def code_points_def lead_byte_def)
  have b: "getDiff (always (Inl (command_failed (Buf [0xFF]) [0xFFFD]))) None []
        (unset\<lparr>raw := Some True\<rparr>) () =
       (Inl \<lparr> message = lit ''git diff failed: Command failed: git --no-pager diff''
                  @ [10, 0xFFFD, 10] @ lit ''stderr:'' @ [10, 0xFFFD],
              original = command_failed (Buf [0xFF]) [0xFFFD] \<rparr>, ())"
    by (simp add: getDiff_def execFileSync_always ex_def msg_def stderrMsg_def toString_utf8_always
        replacing_utf8_def code_points_def lead_byte_def command_failed_def lit_def)
  have c: "\<not> sublist (lit ''<failed to decode stderr>'')
         (lit ''git diff failed: Command failed: git --no-pager diff''
          @ [10, 0xFFFD, 10] @ lit ''stderr:'' @ [10, 0xFFFD])"
    by (simp add: lit_def sublist_code)
  from a b c show ?thesis by (intro conjI)
qed

end
